theory Spec2Isabelle
  imports Complex_Main "HOL-Library.Sublist" "HOL-Library.Log_Nat"
begin

section \<open>Python floats\<close>

text \<open>
  Amounts and balances are Python floats (\<^verbatim>\<open>amount: float\<close>, \<^verbatim>\<open>initial_deposit=0.0\<close>), that
  is IEEE 754 binary64 values. A finite float is modelled by the rational number it denotes
  (\<open>Fin q\<close>, where the two signed zeros are the one value \<open>Fin 0\<close>: they compare equal and
  differ in no sum, difference or comparison); the other values are the two infinities and
  NaN. A sum or difference of finite floats is the exact result rounded to the nearest
  double, ties to the even mantissa, and to an infinity beyond the largest double.
\<close>

datatype float = Fin rat | PInf | NInf | NaN

text \<open>\<open>pow2 e\<close> is \<open>2\<^sup>e\<close> for an integer \<open>e\<close> of either sign.\<close>

definition pow2 :: "int \<Rightarrow> rat" where
  "pow2 e = (if 0 \<le> e then 2 ^ nat e else 1 / 2 ^ nat (- e))"

text \<open>
  For \<open>a > 0\<close>, \<open>ilog2 a\<close> is the integer \<open>k\<close> with \<open>2\<^sup>k \<le> a < 2\<^sup>k\<^sup>+\<^sup>1\<close>, computed from the
  number of binary digits of \<open>\<lfloor>a\<rfloor>\<close>, or of \<open>\<lceil>1 / a\<rceil> - 1\<close> when \<open>a < 1\<close>.
\<close>

definition ilog2 :: "rat \<Rightarrow> int" where
  "ilog2 a = (if 1 \<le> a then bitlen \<lfloor>a\<rfloor> - 1 else - bitlen (\<lceil>1 / a\<rceil> - 1))"

text \<open>The nearest integer, a tie going to the even one.\<close>

definition round_half_even :: "rat \<Rightarrow> int" where
  "round_half_even y =
     (let f = \<lfloor>y\<rfloor>; d = y - of_int f
      in if d < 1 / 2 then f else if 1 / 2 < d then f + 1 else if even f then f else f + 1)"

text \<open>
  The exponent of the last mantissa bit of the doubles around \<open>a > 0\<close>: 53 bits of mantissa
  for a normal number, and the fixed exponent \<open>-1074\<close> in the subnormal range.
\<close>

definition exponent :: "rat \<Rightarrow> int" where
  "exponent a = max (ilog2 a - 52) (- 1074)"

definition round_magnitude :: "rat \<Rightarrow> rat" where
  "round_magnitude a = of_int (round_half_even (a / pow2 (exponent a))) * pow2 (exponent a)"

definition round_double :: "rat \<Rightarrow> float" where
  "round_double x =
     (if x = 0 then Fin 0
      else if pow2 1024 \<le> round_magnitude \<bar>x\<bar> then (if 0 < x then PInf else NInf)
      else Fin (sgn x * round_magnitude \<bar>x\<bar>))"

text \<open>
  A rational is (the value of) a double when it is zero, or is below \<open>2\<^sup>1\<^sup>0\<^sup>2\<^sup>4\<close> in magnitude
  and a whole multiple of the last mantissa bit at its exponent.
\<close>

definition is_double :: "rat \<Rightarrow> bool" where
  "is_double x =
     (x = 0 \<or>
      (\<bar>x\<bar> < pow2 1024 \<and>
       of_int \<lfloor>\<bar>x\<bar> / pow2 (exponent \<bar>x\<bar>)\<rfloor> = \<bar>x\<bar> / pow2 (exponent \<bar>x\<bar>)))"

fun float_add :: "float \<Rightarrow> float \<Rightarrow> float" where
  "float_add NaN y = NaN"
| "float_add x NaN = NaN"
| "float_add PInf NInf = NaN"
| "float_add NInf PInf = NaN"
| "float_add PInf y = PInf"
| "float_add x PInf = PInf"
| "float_add NInf y = NInf"
| "float_add x NInf = NInf"
| "float_add (Fin a) (Fin b) = round_double (a + b)"

fun float_neg :: "float \<Rightarrow> float" where
  "float_neg (Fin a) = Fin (- a)"
| "float_neg PInf = NInf"
| "float_neg NInf = PInf"
| "float_neg NaN = NaN"

text \<open>Comparisons with NaN are false.\<close>

fun float_le :: "float \<Rightarrow> float \<Rightarrow> bool" where
  "float_le NaN y = False"
| "float_le x NaN = False"
| "float_le NInf y = True"
| "float_le x PInf = True"
| "float_le PInf y = False"
| "float_le x NInf = False"
| "float_le (Fin a) (Fin b) = (a \<le> b)"

fun float_less :: "float \<Rightarrow> float \<Rightarrow> bool" where
  "float_less NaN y = False"
| "float_less x NaN = False"
| "float_less PInf y = False"
| "float_less x NInf = False"
| "float_less NInf y = True"
| "float_less x PInf = True"
| "float_less (Fin a) (Fin b) = (a < b)"

text \<open>
  The operators of the source on floats: \<^verbatim>\<open>+\<close>, \<^verbatim>\<open>-\<close>, \<^verbatim>\<open><=\<close>, \<^verbatim>\<open><\<close>, and the constant
  \<^verbatim>\<open>0\<close> the amounts are compared with. Float addition is not associative and the order
  is not total, so the type is an instance of the syntactic classes only.
\<close>

instantiation float :: "{zero, plus, minus, ord}"
begin

definition zero_float :: float where
  "zero_float = Fin 0"

definition plus_float :: "float \<Rightarrow> float \<Rightarrow> float" where
  "plus_float x y = float_add x y"

definition minus_float :: "float \<Rightarrow> float \<Rightarrow> float" where
  "minus_float x y = float_add x (float_neg y)"

definition less_eq_float :: "float \<Rightarrow> float \<Rightarrow> bool" where
  "less_eq_float x y = float_le x y"

definition less_float :: "float \<Rightarrow> float \<Rightarrow> bool" where
  "less_float x y = float_less x y"

instance ..

end

section \<open>Domain layer\<close>

text \<open>
  The model follows \<^verbatim>\<open>week_1.py\<close> class by class. The two values the constructors draw
  from the environment, \<^verbatim>\<open>str(uuid.uuid4())\<close> and \<^verbatim>\<open>datetime.now()\<close>, are explicit
  arguments of the model.
\<close>

type_synonym datetime = nat

datatype AccountStatus = ACTIVE | CLOSED

datatype AccountType = CHECKING | SAVINGS

datatype TransactionType = DEPOSIT | WITHDRAW

text \<open>
  Every failure of the source is a Python \<^verbatim>\<open>ValueError\<close>; the constructor records which
  \<^verbatim>\<open>raise\<close> it comes from:
  \<^item> \<open>InvalidAmount\<close>: "Deposit amount must be positive." and
    "Withdrawal amount must be positive." (lines 30 and 35);
  \<^item> \<open>InsufficientBalance\<close>: "Insufficient balance." (line 37);
  \<^item> \<open>AccountNotFound\<close>: "Account not found." (lines 99 and 109);
  \<^item> \<open>InvalidAccountType\<close>: the error of the enum lookup \<^verbatim>\<open>AccountType(account_type)\<close>
    (line 86).
\<close>

datatype error = InvalidAmount | InsufficientBalance | AccountNotFound | InvalidAccountType

text \<open>\<^verbatim>\<open>AccountType(value)\<close>: the member with that value, or a \<^verbatim>\<open>ValueError\<close>.\<close>

definition AccountType_of_value :: "string \<Rightarrow> error + AccountType" where
  "AccountType_of_value v =
     (if v = ''CHECKING'' then Inr CHECKING
      else if v = ''SAVINGS'' then Inr SAVINGS
      else Inl InvalidAccountType)"

record Account =
  account_id :: string
  account_type :: AccountType
  balance :: float
  status :: AccountStatus
  creation_date :: datetime

definition Account_init :: "string \<Rightarrow> datetime \<Rightarrow> AccountType \<Rightarrow> float \<Rightarrow> Account" where
  "Account_init uuid now acc_type initial_deposit =
     \<lparr>account_id = uuid, account_type = acc_type, balance = initial_deposit,
      status = ACTIVE, creation_date = now\<rparr>"

text \<open>
  A method that mutates \<open>self\<close> returns its result together with the object after the call,
  also when it raises: what an exception leaves behind is part of the model.
\<close>

definition Account_deposit :: "float \<Rightarrow> Account \<Rightarrow> (error + unit) \<times> Account" where
  "Account_deposit amount self =
     (if amount \<le> 0 then (Inl InvalidAmount, self)
      else (Inr (), self\<lparr>balance := balance self + amount\<rparr>))"

definition Account_withdraw :: "float \<Rightarrow> Account \<Rightarrow> (error + unit) \<times> Account" where
  "Account_withdraw amount self =
     (if amount \<le> 0 then (Inl InvalidAmount, self)
      else if balance self < amount then (Inl InsufficientBalance, self)
      else (Inr (), self\<lparr>balance := balance self - amount\<rparr>))"

record Transaction =
  transaction_id :: string
  tx_account_id :: string
  transaction_type :: TransactionType
  amount :: float
  timestamp :: datetime

text \<open>
  The field \<^verbatim>\<open>account_id\<close> of a transaction is \<open>tx_account_id\<close> here: a record field
  name is a constant, and \<open>account_id\<close> is the field of \<^typ>\<open>Account\<close>.
\<close>

definition Transaction_init ::
  "string \<Rightarrow> datetime \<Rightarrow> string \<Rightarrow> TransactionType \<Rightarrow> float \<Rightarrow> Transaction" where
  "Transaction_init uuid now acc_id tx_type amt =
     \<lparr>transaction_id = uuid, tx_account_id = acc_id, transaction_type = tx_type,
      amount = amt, timestamp = now\<rparr>"

section \<open>Infrastructure layer\<close>

record AccountRepository =
  accounts :: "string \<rightharpoonup> Account"

definition AccountRepository_init :: AccountRepository where
  "AccountRepository_init = \<lparr>accounts = Map.empty\<rparr>"

definition AccountRepository_create_account ::
  "Account \<Rightarrow> AccountRepository \<Rightarrow> string \<times> AccountRepository" where
  "AccountRepository_create_account account self =
     (account_id account, self\<lparr>accounts := (accounts self)(account_id account \<mapsto> account)\<rparr>)"

definition get_account_by_id :: "AccountRepository \<Rightarrow> string \<Rightarrow> Account option" where
  "get_account_by_id self acc_id = accounts self acc_id"

definition update_account :: "Account \<Rightarrow> AccountRepository \<Rightarrow> AccountRepository" where
  "update_account account self =
     self\<lparr>accounts := (accounts self)(account_id account \<mapsto> account)\<rparr>"

record TransactionRepository =
  transactions :: "Transaction list"

definition TransactionRepository_init :: TransactionRepository where
  "TransactionRepository_init = \<lparr>transactions = []\<rparr>"

definition save_transaction ::
  "Transaction \<Rightarrow> TransactionRepository \<Rightarrow> string \<times> TransactionRepository" where
  "save_transaction transaction self =
     (transaction_id transaction, self\<lparr>transactions := transactions self @ [transaction]\<rparr>)"

definition get_transactions_for_account ::
  "TransactionRepository \<Rightarrow> string \<Rightarrow> Transaction list" where
  "get_transactions_for_account self acc_id =
     [tx \<leftarrow> transactions self. tx_account_id tx = acc_id]"

section \<open>Application layer\<close>

text \<open>
  The two services hold no state of their own, only references to the two repositories
  (the module-level \<^verbatim>\<open>account_repo\<close> and \<^verbatim>\<open>transaction_repo\<close>). A service method is
  a function from the state of both repositories to its result and their state afterwards.
\<close>

record system =
  account_repo :: AccountRepository
  transaction_repo :: TransactionRepository

definition system_init :: system where
  "system_init =
     \<lparr>account_repo = AccountRepository_init, transaction_repo = TransactionRepository_init\<rparr>"

definition AccountCreationService_create_account ::
  "string \<Rightarrow> datetime \<Rightarrow> string \<Rightarrow> float \<Rightarrow> system \<Rightarrow> (error + string) \<times> system" where
  "AccountCreationService_create_account uuid now acc_type_str initial_deposit s =
     (case AccountType_of_value acc_type_str of
        Inl e \<Rightarrow> (Inl e, s)
      | Inr acc_type \<Rightarrow>
          (let account = Account_init uuid now acc_type initial_deposit;
               (_, repo) = AccountRepository_create_account account (account_repo s)
           in (Inr (account_id account), s\<lparr>account_repo := repo\<rparr>)))"

text \<open>
  \<^verbatim>\<open>get_account_by_id\<close> returns a reference to the stored object, so the method called on
  it mutates the object inside the repository: \<open>mutated_in_place\<close> is the repository with the
  object under the looked-up key in its state after the call. \<^verbatim>\<open>update_account\<close> then
  stores the same object again, under its own id.
\<close>

definition mutated_in_place :: "string \<Rightarrow> Account \<Rightarrow> AccountRepository \<Rightarrow> AccountRepository" where
  "mutated_in_place acc_id account self = self\<lparr>accounts := (accounts self)(acc_id \<mapsto> account)\<rparr>"

definition TransactionService_deposit ::
  "string \<Rightarrow> datetime \<Rightarrow> string \<Rightarrow> float \<Rightarrow> system \<Rightarrow> (error + Transaction) \<times> system" where
  "TransactionService_deposit uuid now acc_id amt s =
     (case get_account_by_id (account_repo s) acc_id of
        None \<Rightarrow> (Inl AccountNotFound, s)
      | Some account \<Rightarrow>
          (case Account_deposit amt account of
             (Inl e, account') \<Rightarrow>
               (Inl e, s\<lparr>account_repo := mutated_in_place acc_id account' (account_repo s)\<rparr>)
           | (Inr _, account') \<Rightarrow>
               (let repo = update_account account'
                             (mutated_in_place acc_id account' (account_repo s));
                    transaction = Transaction_init uuid now acc_id DEPOSIT amt;
                    (_, log) = save_transaction transaction (transaction_repo s)
                in (Inr transaction, \<lparr>account_repo = repo, transaction_repo = log\<rparr>))))"

definition TransactionService_withdraw ::
  "string \<Rightarrow> datetime \<Rightarrow> string \<Rightarrow> float \<Rightarrow> system \<Rightarrow> (error + Transaction) \<times> system" where
  "TransactionService_withdraw uuid now acc_id amt s =
     (case get_account_by_id (account_repo s) acc_id of
        None \<Rightarrow> (Inl AccountNotFound, s)
      | Some account \<Rightarrow>
          (case Account_withdraw amt account of
             (Inl e, account') \<Rightarrow>
               (Inl e, s\<lparr>account_repo := mutated_in_place acc_id account' (account_repo s)\<rparr>)
           | (Inr _, account') \<Rightarrow>
               (let repo = update_account account'
                             (mutated_in_place acc_id account' (account_repo s));
                    transaction = Transaction_init uuid now acc_id WITHDRAW amt;
                    (_, log) = save_transaction transaction (transaction_repo s)
                in (Inr transaction, \<lparr>account_repo = repo, transaction_repo = log\<rparr>))))"

section \<open>Callers\<close>

text \<open>
  A caller of the public interface issues one service call after the other; a call
  that raises leaves the process running (the route handlers catch the exception), so the next
  call sees the repositories as the failed one left them. Each call carries the values its
  constructor draws from the environment (the fresh uuid and the time).
\<close>

datatype op =
    CreateAccount string datetime string float
  | Deposit string datetime string float
  | Withdraw string datetime string float

datatype reply = AccountId string | Recorded Transaction

fun step :: "op \<Rightarrow> system \<Rightarrow> (error + reply) \<times> system" where
  "step (CreateAccount uuid now acc_type_str initial_deposit) s =
     (case AccountCreationService_create_account uuid now acc_type_str initial_deposit s of
        (r, s') \<Rightarrow> (map_sum id AccountId r, s'))"
| "step (Deposit uuid now acc_id amt) s =
     (case TransactionService_deposit uuid now acc_id amt s of
        (r, s') \<Rightarrow> (map_sum id Recorded r, s'))"
| "step (Withdraw uuid now acc_id amt) s =
     (case TransactionService_withdraw uuid now acc_id amt s of
        (r, s') \<Rightarrow> (map_sum id Recorded r, s'))"

fun run :: "op list \<Rightarrow> system \<Rightarrow> (error + reply) list \<times> system" where
  "run [] s = ([], s)"
| "run (x # xs) s =
     (case step x s of (r, s') \<Rightarrow> (case run xs s' of (rs, s'') \<Rightarrow> (r # rs, s'')))"

text \<open>
  What a call may do to the balance of the account \<open>acc\<close> without making it negative or NaN:
  a call that opens the account gives it an initial deposit \<open>\<ge> 0\<close>, a deposit to it has an
  amount that is not NaN, and a withdrawal from it has an amount that is neither NaN nor
  \<open>+\<infinity>\<close>. Calls on other accounts are not restricted.
\<close>

fun harmless_for :: "string \<Rightarrow> op \<Rightarrow> bool" where
  "harmless_for acc (CreateAccount uuid now acc_type_str initial_deposit) =
     (uuid = acc \<longrightarrow> 0 \<le> initial_deposit)"
| "harmless_for acc (Deposit uuid now acc_id amt) = (acc_id = acc \<longrightarrow> amt \<noteq> NaN)"
| "harmless_for acc (Withdraw uuid now acc_id amt) =
     (acc_id = acc \<longrightarrow> amt \<noteq> NaN \<and> amt \<noteq> PInf)"

text \<open>The call is a deposit to or a withdrawal from the account \<open>acc\<close>, and it returned.\<close>

fun succeeded_on :: "string \<Rightarrow> op \<times> (error + reply) \<Rightarrow> bool" where
  "succeeded_on acc (CreateAccount uuid now acc_type_str initial_deposit, r) = False"
| "succeeded_on acc (Deposit uuid now acc_id amt, r) = (acc_id = acc \<and> \<not> isl r)"
| "succeeded_on acc (Withdraw uuid now acc_id amt, r) = (acc_id = acc \<and> \<not> isl r)"

text \<open>The log after saving the transactions of a list, first to last, to an empty log.\<close>

definition saved_in_order :: "Transaction list \<Rightarrow> TransactionRepository" where
  "saved_in_order txs =
     foldl (\<lambda>repo tx. snd (save_transaction tx repo)) TransactionRepository_init txs"

section \<open>Invariants of the repositories\<close>

text \<open>Every account is stored under its own id.\<close>

definition stored_under_own_id :: "system \<Rightarrow> bool" where
  "stored_under_own_id s =
     (\<forall>k account. accounts (account_repo s) k = Some account \<longrightarrow> account_id account = k)"

text \<open>Every transaction of the log is on an account of the account repository.\<close>

definition log_refers_to_accounts :: "system \<Rightarrow> bool" where
  "log_refers_to_accounts s =
     (\<forall>tx \<in> set (transactions (transaction_repo s)).
        tx_account_id tx \<in> dom (accounts (account_repo s)))"

text \<open>The account stored under \<open>acc\<close>, if there is one, has a balance \<open>\<ge> 0\<close>.\<close>

definition balance_nonneg_at :: "string \<Rightarrow> system \<Rightarrow> bool" where
  "balance_nonneg_at acc s =
     (\<forall>account. accounts (account_repo s) acc = Some account \<longrightarrow> 0 \<le> balance account)"

section \<open>Float arithmetic\<close>


lemma bitlen_One: "bitlen 1 = 1"
  by (simp add: bitlen_alt_def)

lemma bitlen_Bit0: "bitlen (numeral (Num.Bit0 n)) = bitlen (numeral n) + 1"
  by (subst compute_bitlen) simp

lemma bitlen_Bit1: "bitlen (numeral (Num.Bit1 n)) = bitlen (numeral n) + 1"
  by (subst compute_bitlen) simp

lemma floor_rat_numeral: "\<lfloor>(numeral a :: rat) / numeral b\<rfloor> = numeral a div numeral b"
  using floor_divide_of_int_eq [of "numeral a" "numeral b", where ?'a = rat] by simp

lemma floor_rat_neg_numeral:
  "\<lfloor>- ((numeral a :: rat) / numeral b)\<rfloor> = (- numeral a) div numeral b"
  using floor_divide_of_int_eq [of "- numeral a" "numeral b", where ?'a = rat] by simp

lemma floor_rat_one_numeral: "\<lfloor>(1 :: rat) / numeral b\<rfloor> = 1 div numeral b"
  using floor_divide_of_int_eq [of 1 "numeral b", where ?'a = rat] by simp

lemma floor_rat_neg_one_numeral: "\<lfloor>- ((1 :: rat) / numeral b)\<rfloor> = (- 1) div numeral b"
  using floor_divide_of_int_eq [of "- 1" "numeral b", where ?'a = rat] by simp

lemmas round_double_eval =
  round_double_def round_magnitude_def exponent_def ilog2_def round_half_even_def pow2_def
  bitlen_One bitlen_Bit0 bitlen_Bit1 Let_def ceiling_def
  floor_rat_numeral floor_rat_neg_numeral floor_rat_one_numeral floor_rat_neg_one_numeral

lemmas float_ops =
  zero_float_def plus_float_def minus_float_def less_eq_float_def less_float_def

lemma pow2_pos: "0 < pow2 e"
  by (simp add: pow2_def)

lemma round_half_even_nonneg: "0 \<le> y \<Longrightarrow> 0 \<le> round_half_even y"
  by (simp add: round_half_even_def Let_def)

lemma round_half_even_of_int: "round_half_even (of_int k) = k"
  by (simp add: round_half_even_def Let_def)

lemma round_magnitude_nonneg: "0 \<le> a \<Longrightarrow> 0 \<le> round_magnitude a"
  unfolding round_magnitude_def
  by (intro mult_nonneg_nonneg) (simp_all add: round_half_even_nonneg pow2_pos less_imp_le)

lemma round_double_nonneg: "0 \<le> x \<Longrightarrow> 0 \<le> round_double x"
  using round_magnitude_nonneg [of x]
  by (auto simp: round_double_def float_ops)

lemma round_magnitude_exact:
  assumes "of_int \<lfloor>a / pow2 (exponent a)\<rfloor> = a / pow2 (exponent a)"
  shows "round_magnitude a = a"
proof -
  have "round_half_even (a / pow2 (exponent a)) = \<lfloor>a / pow2 (exponent a)\<rfloor>"
    using round_half_even_of_int [of "\<lfloor>a / pow2 (exponent a)\<rfloor>"] assms by simp
  then have "round_magnitude a = a / pow2 (exponent a) * pow2 (exponent a)"
    by (simp add: round_magnitude_def assms)
  then show ?thesis
    using pow2_pos [of "exponent a"] by simp
qed

lemma round_double_exact: "is_double x \<Longrightarrow> round_double x = Fin x"
proof (cases "x = 0")
  case True
  then show ?thesis by (simp add: round_double_def)
next
  case False
  assume "is_double x"
  with False have b: "\<bar>x\<bar> < pow2 1024"
    and i: "of_int \<lfloor>\<bar>x\<bar> / pow2 (exponent \<bar>x\<bar>)\<rfloor> = \<bar>x\<bar> / pow2 (exponent \<bar>x\<bar>)"
    by (simp_all add: is_double_def)
  have "round_magnitude \<bar>x\<bar> = \<bar>x\<bar>"
    using i by (rule round_magnitude_exact)
  with b False show ?thesis
    by (simp add: round_double_def mult_sgn_abs)
qed

lemma float_pos_not_le: "0 < amt \<Longrightarrow> \<not> amt \<le> (0::float)"
  by (cases amt) (simp_all add: float_ops)

lemma float_add_nonneg:
  "0 \<le> b \<Longrightarrow> \<not> amt \<le> 0 \<Longrightarrow> amt \<noteq> NaN \<Longrightarrow> (0::float) \<le> b + amt"
  using round_double_nonneg
  by (cases b; cases amt) (simp_all add: float_ops)

lemma float_sub_nonneg:
  "0 \<le> b \<Longrightarrow> \<not> amt \<le> 0 \<Longrightarrow> \<not> b < amt \<Longrightarrow> amt \<noteq> NaN \<Longrightarrow> amt \<noteq> PInf \<Longrightarrow>
   (0::float) \<le> b - amt"
  using round_double_nonneg
  by (cases b; cases amt) (simp_all add: float_ops)

text \<open>Values of the rounding, as IEEE 754 arithmetic gives them.\<close>

lemma rounding_checks:
  "round_double (1 / 10) = Fin (3602879701896397 / 36028797018963968)"
  "round_double (3 / 10) = Fin (5404319552844595 / 18014398509481984)"
  "round_double (9 / 10) = Fin (8106479329266893 / 9007199254740992)"
  "round_double (10 ^ 16 + 1) = Fin (10 ^ 16)"
  "round_double (2 ^ 53 + 1) = Fin (2 ^ 53)"
  "round_double (2 ^ 53 + 3) = Fin (2 ^ 53 + 4)"
  "round_double (- (1 / 10)) = Fin (- (3602879701896397 / 36028797018963968))"
  "round_double (1 / 2 ^ 1075) = Fin 0"
  by (simp_all add: round_double_eval)

lemma rounding_overflow: "round_double (2 ^ 1023 + 2 ^ 1023) = PInf"
  by (simp add: round_double_eval)

section \<open>The account\<close>

text \<open>
  C2, as stated: a withdrawal that passes both checks decreases the balance by exactly the
  amount. Withdrawing \<open>0.1\<close> (the double nearest to one tenth) from the balance \<open>1.0\<close>
  succeeds and leaves the double nearest to nine tenths, which is not \<open>1.0\<close> minus the
  amount.
\<close>

theorem withdraw_exactly_counterexample:
  "Account_withdraw (Fin (3602879701896397 / 36028797018963968))
      (Account_init ''a1'' 7 CHECKING (Fin 1)) =
     (Inr (), Account_init ''a1'' 7 CHECKING (Fin (8106479329266893 / 9007199254740992))) \<and>
   (8106479329266893 / 9007199254740992 :: rat) \<noteq> 1 - 3602879701896397 / 36028797018963968"
  by (simp add: Account_withdraw_def Account_init_def float_ops round_double_eval)

text \<open>
  C2, amended. \<^verbatim>\<open>Account.withdraw(amount)\<close>, its checks read in the order the sentence
  gives them: an amount \<open>\<le> 0\<close> fails with \<open>InvalidAmount\<close>; a positive amount above the balance
  fails with \<open>InsufficientBalance\<close>; a failed call leaves the account as it was. Any other
  amount (a NaN included, which passes both checks) succeeds and sets the balance to the
  float difference of balance and amount, every other field staying as it was. For a finite
  balance \<open>b\<close> and amount \<open>a\<close> this is \<open>b - a\<close> rounded to the nearest double, and it is
  exactly \<open>b - a\<close> whenever \<open>b - a\<close> is a double.
\<close>

theorem withdraw_cases:
  "(amt \<le> 0 \<longrightarrow> Account_withdraw amt self = (Inl InvalidAmount, self)) \<and>
   (0 < amt \<and> balance self < amt \<longrightarrow>
      Account_withdraw amt self = (Inl InsufficientBalance, self)) \<and>
   (\<not> amt \<le> 0 \<and> \<not> balance self < amt \<longrightarrow>
      Account_withdraw amt self = (Inr (), self\<lparr>balance := balance self - amt\<rparr>)) \<and>
   (balance self = Fin b \<and> amt = Fin a \<and> 0 < a \<and> a \<le> b \<longrightarrow>
      Account_withdraw amt self = (Inr (), self\<lparr>balance := round_double (b - a)\<rparr>)) \<and>
   (balance self = Fin b \<and> amt = Fin a \<and> 0 < a \<and> a \<le> b \<and> is_double (b - a) \<longrightarrow>
      Account_withdraw amt self = (Inr (), self\<lparr>balance := Fin (b - a)\<rparr>))"
proof (intro conjI impI)
  assume "balance self = Fin b \<and> amt = Fin a \<and> 0 < a \<and> a \<le> b"
  then show "Account_withdraw amt self = (Inr (), self\<lparr>balance := round_double (b - a)\<rparr>)"
    by (simp add: Account_withdraw_def float_ops)
next
  assume "balance self = Fin b \<and> amt = Fin a \<and> 0 < a \<and> a \<le> b \<and> is_double (b - a)"
  then show "Account_withdraw amt self = (Inr (), self\<lparr>balance := Fin (b - a)\<rparr>)"
    by (simp add: Account_withdraw_def float_ops round_double_exact)
qed (simp_all add: Account_withdraw_def float_pos_not_le)

theorem withdraw_cases_witness:
  "Account_withdraw (Fin 0) (Account_init ''a1'' 7 CHECKING (Fin 100)) =
     (Inl InvalidAmount, Account_init ''a1'' 7 CHECKING (Fin 100)) \<and>
   Account_withdraw (Fin 200) (Account_init ''a1'' 7 CHECKING (Fin 100)) =
     (Inl InsufficientBalance, Account_init ''a1'' 7 CHECKING (Fin 100)) \<and>
   Account_withdraw (Fin 30) (Account_init ''a1'' 7 CHECKING (Fin 100)) =
     (Inr (), Account_init ''a1'' 7 CHECKING (Fin 70)) \<and>
   Account_withdraw NaN (Account_init ''a1'' 7 CHECKING (Fin 100)) =
     (Inr (), Account_init ''a1'' 7 CHECKING NaN)"
proof -
  have d: "is_double (100 - 30)"
    by (simp add: is_double_def round_double_eval)
  note c = conjunct2 [OF conjunct2 [OF conjunct2 [OF conjunct2]]]
  from withdraw_cases [of "Fin 0" "Account_init ''a1'' 7 CHECKING (Fin 100)"]
       withdraw_cases [of "Fin 200" "Account_init ''a1'' 7 CHECKING (Fin 100)"]
       withdraw_cases [of "Fin 30" "Account_init ''a1'' 7 CHECKING (Fin 100)" 100 30, THEN c]
       withdraw_cases [of NaN "Account_init ''a1'' 7 CHECKING (Fin 100)"] d
  show ?thesis
    by (simp add: Account_init_def float_ops)
qed

text \<open>
  C4, as stated: whenever the amount exceeds the balance, the withdrawal fails with
  \<open>InsufficientBalance\<close>. An account opened with the initial deposit \<open>-5\<close> has the balance
  \<open>-5\<close>; withdrawing \<open>-1\<close> from it exceeds the balance and fails with \<open>InvalidAmount\<close>,
  because the amount is checked first.
\<close>

theorem withdraw_over_balance_counterexample:
  "balance (Account_init ''a1'' 7 CHECKING (Fin (- 5))) < Fin (- 1) \<and>
   Account_withdraw (Fin (- 1)) (Account_init ''a1'' 7 CHECKING (Fin (- 5))) =
     (Inl InvalidAmount, Account_init ''a1'' 7 CHECKING (Fin (- 5))) \<and>
   fst (Account_withdraw (Fin (- 1)) (Account_init ''a1'' 7 CHECKING (Fin (- 5)))) \<noteq>
     Inl InsufficientBalance"
  by (simp add: Account_withdraw_def Account_init_def float_ops)

text \<open>
  C4, amended: for every account and every positive amount above the balance, the withdrawal
  fails with \<open>InsufficientBalance\<close> and the account, its balance included, is as before.
\<close>

theorem withdraw_over_balance:
  "0 < amt \<Longrightarrow> balance self < amt \<Longrightarrow>
   fst (Account_withdraw amt self) = Inl InsufficientBalance \<and>
   snd (Account_withdraw amt self) = self \<and>
   balance (snd (Account_withdraw amt self)) = balance self"
  by (simp add: Account_withdraw_def float_pos_not_le)

theorem withdraw_over_balance_witness:
  "(0::float) < Fin 200 \<and> balance (Account_init ''a1'' 7 CHECKING (Fin 150)) < Fin 200 \<and>
   fst (Account_withdraw (Fin 200) (Account_init ''a1'' 7 CHECKING (Fin 150))) =
     Inl InsufficientBalance \<and>
   balance (snd (Account_withdraw (Fin 200) (Account_init ''a1'' 7 CHECKING (Fin 150)))) =
     Fin 150"
  using withdraw_over_balance [of "Fin 200" "Account_init ''a1'' 7 CHECKING (Fin 150)"]
  by (simp add: Account_init_def float_ops)

text \<open>
  C5, as stated: a deposit of a positive amount increases the balance by exactly the amount.
  Depositing \<open>1.0\<close> into an account with the balance \<open>10\<^sup>1\<^sup>6\<close> succeeds and leaves the balance
  at \<open>10\<^sup>1\<^sup>6\<close>: the sum is not a double and is rounded back.
\<close>

theorem deposit_exactly_counterexample:
  "Account_deposit (Fin 1) (Account_init ''a1'' 7 SAVINGS (Fin 10000000000000000)) =
     (Inr (), Account_init ''a1'' 7 SAVINGS (Fin 10000000000000000))"
  by (simp add: Account_deposit_def Account_init_def float_ops round_double_eval)

text \<open>
  C5, amended. \<^verbatim>\<open>Account.deposit(amount)\<close>: an amount \<open>\<le> 0\<close> fails with \<open>InvalidAmount\<close> and
  leaves the account as it was. Any other amount (a NaN included), however large, succeeds
  and sets the balance to the float sum of balance and amount, with no upper bound enforced.
  For a finite balance \<open>b\<close> and amount \<open>a\<close> this is \<open>b + a\<close> rounded to the nearest double
  (\<open>+\<infinity>\<close> beyond the largest double), and it is exactly \<open>b + a\<close> whenever \<open>b + a\<close> is a
  double.
\<close>

theorem deposit_cases:
  "(amt \<le> 0 \<longrightarrow> Account_deposit amt self = (Inl InvalidAmount, self)) \<and>
   (\<not> amt \<le> 0 \<longrightarrow>
      Account_deposit amt self = (Inr (), self\<lparr>balance := balance self + amt\<rparr>)) \<and>
   (balance self = Fin b \<and> amt = Fin a \<and> 0 < a \<longrightarrow>
      Account_deposit amt self = (Inr (), self\<lparr>balance := round_double (b + a)\<rparr>)) \<and>
   (balance self = Fin b \<and> amt = Fin a \<and> 0 < a \<and> is_double (b + a) \<longrightarrow>
      Account_deposit amt self = (Inr (), self\<lparr>balance := Fin (b + a)\<rparr>))"
proof (intro conjI impI)
  assume "balance self = Fin b \<and> amt = Fin a \<and> 0 < a"
  then show "Account_deposit amt self = (Inr (), self\<lparr>balance := round_double (b + a)\<rparr>)"
    by (simp add: Account_deposit_def float_ops)
next
  assume "balance self = Fin b \<and> amt = Fin a \<and> 0 < a \<and> is_double (b + a)"
  then show "Account_deposit amt self = (Inr (), self\<lparr>balance := Fin (b + a)\<rparr>)"
    by (simp add: Account_deposit_def float_ops round_double_exact)
qed (simp_all add: Account_deposit_def)

theorem deposit_cases_witness:
  "Account_deposit (Fin (- 3)) (Account_init ''a1'' 7 SAVINGS (Fin 100)) =
     (Inl InvalidAmount, Account_init ''a1'' 7 SAVINGS (Fin 100)) \<and>
   Account_deposit (Fin 1000000000000) (Account_init ''a1'' 7 SAVINGS (Fin 100)) =
     (Inr (), Account_init ''a1'' 7 SAVINGS (Fin 1000000000100)) \<and>
   Account_deposit (Fin (2 ^ 1023)) (Account_init ''a1'' 7 SAVINGS (Fin (2 ^ 1023))) =
     (Inr (), Account_init ''a1'' 7 SAVINGS PInf) \<and>
   Account_deposit NaN (Account_init ''a1'' 7 SAVINGS (Fin 100)) =
     (Inr (), Account_init ''a1'' 7 SAVINGS NaN)"
proof -
  have d: "is_double (100 + 1000000000000)"
    by (simp add: is_double_def round_double_eval)
  note c3 = conjunct1 [OF conjunct2 [OF conjunct2]]
  note c4 = conjunct2 [OF conjunct2 [OF conjunct2]]
  from deposit_cases [of "Fin (- 3)" "Account_init ''a1'' 7 SAVINGS (Fin 100)"]
       deposit_cases [of "Fin 1000000000000" "Account_init ''a1'' 7 SAVINGS (Fin 100)"
         100 1000000000000, THEN c4]
       deposit_cases [of "Fin (2 ^ 1023)" "Account_init ''a1'' 7 SAVINGS (Fin (2 ^ 1023))"
         "2 ^ 1023" "2 ^ 1023", THEN c3]
       deposit_cases [of NaN "Account_init ''a1'' 7 SAVINGS (Fin 100)"] d rounding_overflow
  show ?thesis
    by (simp add: Account_init_def float_ops)
qed




text \<open>
  C9. For every account, one with a negative balance included, and every amount \<open>\<le> 0\<close>,
  \<^verbatim>\<open>Account.withdraw\<close> fails with \<open>InvalidAmount\<close> and not with \<open>InsufficientBalance\<close>, also
  when the amount exceeds the balance: the check of the amount comes first.
\<close>

theorem withdraw_amount_check_first:
  "amt \<le> 0 \<Longrightarrow>
   fst (Account_withdraw amt self) = Inl InvalidAmount \<and>
   fst (Account_withdraw amt self) \<noteq> Inl InsufficientBalance \<and>
   snd (Account_withdraw amt self) = self"
  by (simp add: Account_withdraw_def)

theorem withdraw_amount_check_first_witness:
  "Fin (- 1) \<le> 0 \<and> balance (Account_init ''a1'' 7 CHECKING (Fin (- 5))) < Fin (- 1) \<and>
   fst (Account_withdraw (Fin (- 1)) (Account_init ''a1'' 7 CHECKING (Fin (- 5)))) =
     Inl InvalidAmount"
  using withdraw_amount_check_first [of "Fin (- 1)" "Account_init ''a1'' 7 CHECKING (Fin (- 5))"]
  by (simp add: Account_init_def float_ops)


section \<open>The transaction log\<close>

lemma transactions_saved:
  "transactions (foldl (\<lambda>repo tx. snd (save_transaction tx repo)) self txs) =
     transactions self @ txs"
  by (induction txs arbitrary: self) (simp_all add: save_transaction_def)

lemma transactions_saved_in_order: "transactions (saved_in_order txs) = txs"
  by (simp add: saved_in_order_def transactions_saved TransactionRepository_init_def)

lemma transactions_save_transaction:
  "transactions (snd (save_transaction tx self)) = transactions self @ [tx]"
  by (simp add: save_transaction_def)

text \<open>
  C6. \<^verbatim>\<open>get_transactions_for_account(id)\<close> returns exactly the transactions of the log
  whose account id is \<open>id\<close>, in the order of the log, and saving appends at the end of the
  log: after saving the transactions \<open>txs\<close> one by one, the result is the sublist of \<open>txs\<close>
  with that account id, oldest first. When no transaction matches, the result is the empty
  list.
\<close>

theorem get_transactions_for_account_in_order:
  "set (get_transactions_for_account self acc_id) =
     {tx \<in> set (transactions self). tx_account_id tx = acc_id} \<and>
   subseq (get_transactions_for_account self acc_id) (transactions self) \<and>
   get_transactions_for_account (snd (save_transaction tx self)) acc_id =
     get_transactions_for_account self acc_id @ (if tx_account_id tx = acc_id then [tx] else []) \<and>
   get_transactions_for_account (saved_in_order txs) acc_id =
     filter (\<lambda>tx. tx_account_id tx = acc_id) txs \<and>
   ((\<forall>tx \<in> set (transactions self). tx_account_id tx \<noteq> acc_id) \<longrightarrow>
      get_transactions_for_account self acc_id = [])"
  by (auto simp: get_transactions_for_account_def transactions_save_transaction
      transactions_saved_in_order)

theorem get_transactions_for_account_in_order_witness:
  "transactions (saved_in_order
        [Transaction_init ''t1'' 1 ''a'' DEPOSIT (Fin 50), Transaction_init ''t2'' 2 ''b'' DEPOSIT (Fin 7),
         Transaction_init ''t3'' 3 ''a'' WITHDRAW (Fin 150)]) =
     [Transaction_init ''t1'' 1 ''a'' DEPOSIT (Fin 50), Transaction_init ''t2'' 2 ''b'' DEPOSIT (Fin 7),
      Transaction_init ''t3'' 3 ''a'' WITHDRAW (Fin 150)] \<and>
   get_transactions_for_account (saved_in_order
        [Transaction_init ''t1'' 1 ''a'' DEPOSIT (Fin 50), Transaction_init ''t2'' 2 ''b'' DEPOSIT (Fin 7),
         Transaction_init ''t3'' 3 ''a'' WITHDRAW (Fin 150)]) ''c'' = [] \<and>
   get_transactions_for_account (saved_in_order
        [Transaction_init ''t1'' 1 ''a'' DEPOSIT (Fin 50), Transaction_init ''t2'' 2 ''b'' DEPOSIT (Fin 7),
         Transaction_init ''t3'' 3 ''a'' WITHDRAW (Fin 150)]) ''a'' =
     [Transaction_init ''t1'' 1 ''a'' DEPOSIT (Fin 50), Transaction_init ''t3'' 3 ''a'' WITHDRAW (Fin 150)]"
  using get_transactions_for_account_in_order
    [of "saved_in_order
        [Transaction_init ''t1'' 1 ''a'' DEPOSIT (Fin 50), Transaction_init ''t2'' 2 ''b'' DEPOSIT (Fin 7),
         Transaction_init ''t3'' 3 ''a'' WITHDRAW (Fin 150)]" "''c''"]
   get_transactions_for_account_in_order
    [of _ "''a''" _ "[Transaction_init ''t1'' 1 ''a'' DEPOSIT (Fin 50), Transaction_init ''t2'' 2 ''b'' DEPOSIT (Fin 7),
         Transaction_init ''t3'' 3 ''a'' WITHDRAW (Fin 150)]"]
  by (simp add: Transaction_init_def transactions_saved_in_order)

section \<open>Opening an account\<close>

lemma create_account_result:
  "AccountCreationService_create_account uuid now acc_type_str initial_deposit s =
     (case AccountType_of_value acc_type_str of
        Inl e \<Rightarrow> (Inl e, s)
      | Inr acc_type \<Rightarrow>
          (Inr uuid,
           s\<lparr>account_repo := (account_repo s)
                \<lparr>accounts := (accounts (account_repo s))
                   (uuid \<mapsto> Account_init uuid now acc_type initial_deposit)\<rparr>\<rparr>))"
  by (simp add: AccountCreationService_create_account_def AccountRepository_create_account_def
      Account_init_def Let_def split: sum.splits)

text \<open>
  C8. \<^verbatim>\<open>AccountCreationService.create_account\<close> fails with \<open>InvalidAccountType\<close> when the
  type string is neither \<^verbatim>\<open>CHECKING\<close> nor \<^verbatim>\<open>SAVINGS\<close>, and then stores nothing. Otherwise
  it returns the new id and stores under it an account of that type, with status \<open>ACTIVE\<close>
  and with the initial deposit, whatever its sign, as its balance.
\<close>

theorem create_account_cases:
  "(acc_type_str \<noteq> ''CHECKING'' \<and> acc_type_str \<noteq> ''SAVINGS'' \<longrightarrow>
      AccountCreationService_create_account uuid now acc_type_str initial_deposit s =
        (Inl InvalidAccountType, s)) \<and>
   (acc_type_str = ''CHECKING'' \<or> acc_type_str = ''SAVINGS'' \<longrightarrow>
      fst (AccountCreationService_create_account uuid now acc_type_str initial_deposit s) =
        Inr uuid \<and>
      accounts (account_repo
          (snd (AccountCreationService_create_account uuid now acc_type_str initial_deposit s))) =
        (accounts (account_repo s))
          (uuid \<mapsto> \<lparr>account_id = uuid,
                    account_type = (if acc_type_str = ''CHECKING'' then CHECKING else SAVINGS),
                    balance = initial_deposit, status = ACTIVE, creation_date = now\<rparr>) \<and>
      transaction_repo
          (snd (AccountCreationService_create_account uuid now acc_type_str initial_deposit s)) =
        transaction_repo s)"
  by (auto simp: create_account_result AccountType_of_value_def Account_init_def)

theorem create_account_cases_witness:
  "AccountCreationService_create_account ''id-1'' 3 ''checking'' (Fin 10) system_init =
     (Inl InvalidAccountType, system_init) \<and>
   fst (AccountCreationService_create_account ''id-1'' 3 ''SAVINGS'' (Fin (- 25)) system_init) =
     Inr ''id-1'' \<and>
   accounts (account_repo
       (snd (AccountCreationService_create_account ''id-1'' 3 ''SAVINGS'' (Fin (- 25)) system_init)))
     ''id-1'' =
     Some \<lparr>account_id = ''id-1'', account_type = SAVINGS, balance = Fin (- 25), status = ACTIVE,
           creation_date = 3\<rparr>"
  using create_account_cases [of "''checking''" "''id-1''" 3 "Fin 10" system_init]
        create_account_cases [of "''SAVINGS''" "''id-1''" 3 "Fin (- 25)" system_init]
  by simp

lemma create_account_state:
  "snd (AccountCreationService_create_account uuid now acc_type_str initial_deposit s) =
     (case AccountType_of_value acc_type_str of
        Inl e \<Rightarrow> s
      | Inr acc_type \<Rightarrow>
           s\<lparr>account_repo := (account_repo s)
                \<lparr>accounts := (accounts (account_repo s))
                   (uuid \<mapsto> Account_init uuid now acc_type initial_deposit)\<rparr>\<rparr>)"
  by (simp add: create_account_result split: sum.splits)

section \<open>Deposits and withdrawals through the service\<close>

lemma mutated_in_place_same:
  "accounts self acc_id = Some account \<Longrightarrow> mutated_in_place acc_id account self = self"
  by (simp add: mutated_in_place_def map_upd_triv)

lemma deposit_failure_keeps_state:
  "isl (fst (TransactionService_deposit uuid now acc_id amt s)) \<Longrightarrow>
   snd (TransactionService_deposit uuid now acc_id amt s) = s"
  by (auto simp: TransactionService_deposit_def get_account_by_id_def Account_deposit_def
      mutated_in_place_same save_transaction_def Let_def split: option.splits if_splits)

lemma withdraw_failure_keeps_state:
  "isl (fst (TransactionService_withdraw uuid now acc_id amt s)) \<Longrightarrow>
   snd (TransactionService_withdraw uuid now acc_id amt s) = s"
  by (auto simp: TransactionService_withdraw_def get_account_by_id_def Account_withdraw_def
      mutated_in_place_same save_transaction_def Let_def split: option.splits if_splits)

lemma deposit_result:
  "fst (TransactionService_deposit uuid now acc_id amt s) =
     (case accounts (account_repo s) acc_id of
        None \<Rightarrow> Inl AccountNotFound
      | Some account \<Rightarrow>
          if amt \<le> 0 then Inl InvalidAmount
          else Inr (Transaction_init uuid now acc_id DEPOSIT amt))"
  by (auto simp: TransactionService_deposit_def get_account_by_id_def Account_deposit_def
      mutated_in_place_def save_transaction_def Let_def split: option.splits if_splits)

lemma withdraw_result:
  "fst (TransactionService_withdraw uuid now acc_id amt s) =
     (case accounts (account_repo s) acc_id of
        None \<Rightarrow> Inl AccountNotFound
      | Some account \<Rightarrow>
          if amt \<le> 0 then Inl InvalidAmount
          else if balance account < amt then Inl InsufficientBalance
          else Inr (Transaction_init uuid now acc_id WITHDRAW amt))"
  by (auto simp: TransactionService_withdraw_def get_account_by_id_def Account_withdraw_def
      mutated_in_place_def save_transaction_def Let_def split: option.splits if_splits)

lemma deposit_success_state:
  assumes "accounts (account_repo s) acc_id = Some account" "\<not> amt \<le> 0"
  shows "accounts (account_repo (snd (TransactionService_deposit uuid now acc_id amt s))) =
           (accounts (account_repo s))
             (acc_id \<mapsto> account\<lparr>balance := balance account + amt\<rparr>,
              account_id account \<mapsto> account\<lparr>balance := balance account + amt\<rparr>)"
    and "transaction_repo (snd (TransactionService_deposit uuid now acc_id amt s)) =
           snd (save_transaction (Transaction_init uuid now acc_id DEPOSIT amt) (transaction_repo s))"
  using assms
  by (auto simp: TransactionService_deposit_def get_account_by_id_def Account_deposit_def
      mutated_in_place_def update_account_def Let_def split: prod.splits)

lemma withdraw_success_state:
  assumes "accounts (account_repo s) acc_id = Some account" "\<not> amt \<le> 0" "\<not> balance account < amt"
  shows "accounts (account_repo (snd (TransactionService_withdraw uuid now acc_id amt s))) =
           (accounts (account_repo s))
             (acc_id \<mapsto> account\<lparr>balance := balance account - amt\<rparr>,
              account_id account \<mapsto> account\<lparr>balance := balance account - amt\<rparr>)"
    and "transaction_repo (snd (TransactionService_withdraw uuid now acc_id amt s)) =
           snd (save_transaction (Transaction_init uuid now acc_id WITHDRAW amt) (transaction_repo s))"
  using assms
  by (auto simp: TransactionService_withdraw_def get_account_by_id_def Account_withdraw_def
      mutated_in_place_def update_account_def Let_def split: prod.splits)

text \<open>
  C3. A call of \<^verbatim>\<open>TransactionService.deposit\<close> or \<^verbatim>\<open>TransactionService.withdraw\<close> that
  fails, with \<open>AccountNotFound\<close>, \<open>InvalidAmount\<close> or (for a withdrawal) \<open>InsufficientBalance\<close>,
  leaves both repositories as they were: no transaction is appended and no stored account
  changes. A call that succeeds appends exactly one transaction to the log, the one it
  returns, whose account id, type and amount are those of the call, and replaces exactly
  one entry of the account repository, the one of the account, by the account with its
  balance raised or lowered by the amount. The account is stored under its own id, as every
  account of a repository filled through the services is (\<open>run_stored_under_own_id\<close>).
\<close>

theorem transaction_service_effects:
  "(isl (fst (TransactionService_deposit uuid now acc_id amt s)) \<longrightarrow>
      snd (TransactionService_deposit uuid now acc_id amt s) = s \<and>
      fst (TransactionService_deposit uuid now acc_id amt s) \<in>
        {Inl AccountNotFound, Inl InvalidAmount}) \<and>
   (isl (fst (TransactionService_withdraw uuid now acc_id amt s)) \<longrightarrow>
      snd (TransactionService_withdraw uuid now acc_id amt s) = s \<and>
      fst (TransactionService_withdraw uuid now acc_id amt s) \<in>
        {Inl AccountNotFound, Inl InvalidAmount, Inl InsufficientBalance}) \<and>
   (fst (TransactionService_deposit uuid now acc_id amt s) = Inr tx \<longrightarrow>
      transactions (transaction_repo (snd (TransactionService_deposit uuid now acc_id amt s))) =
        transactions (transaction_repo s) @ [tx] \<and>
      tx_account_id tx = acc_id \<and> transaction_type tx = DEPOSIT \<and> amount tx = amt \<and>
      (\<forall>account. accounts (account_repo s) acc_id = Some account \<and> account_id account = acc_id \<longrightarrow>
         accounts (account_repo (snd (TransactionService_deposit uuid now acc_id amt s))) =
           (accounts (account_repo s))
             (acc_id \<mapsto> account\<lparr>balance := balance account + amt\<rparr>))) \<and>
   (fst (TransactionService_withdraw uuid now acc_id amt s) = Inr tx \<longrightarrow>
      transactions (transaction_repo (snd (TransactionService_withdraw uuid now acc_id amt s))) =
        transactions (transaction_repo s) @ [tx] \<and>
      tx_account_id tx = acc_id \<and> transaction_type tx = WITHDRAW \<and> amount tx = amt \<and>
      (\<forall>account. accounts (account_repo s) acc_id = Some account \<and> account_id account = acc_id \<longrightarrow>
         accounts (account_repo (snd (TransactionService_withdraw uuid now acc_id amt s))) =
           (accounts (account_repo s))
             (acc_id \<mapsto> account\<lparr>balance := balance account - amt\<rparr>)))"
proof (intro conjI impI)
  assume "isl (fst (TransactionService_deposit uuid now acc_id amt s))"
  then show "snd (TransactionService_deposit uuid now acc_id amt s) = s"
    by (rule deposit_failure_keeps_state)
next
  assume "isl (fst (TransactionService_deposit uuid now acc_id amt s))"
  then show "fst (TransactionService_deposit uuid now acc_id amt s) \<in>
        {Inl AccountNotFound, Inl InvalidAmount}"
    by (auto simp: deposit_result split: option.splits if_splits)
next
  assume "isl (fst (TransactionService_withdraw uuid now acc_id amt s))"
  then show "snd (TransactionService_withdraw uuid now acc_id amt s) = s"
    by (rule withdraw_failure_keeps_state)
next
  assume "isl (fst (TransactionService_withdraw uuid now acc_id amt s))"
  then show "fst (TransactionService_withdraw uuid now acc_id amt s) \<in>
        {Inl AccountNotFound, Inl InvalidAmount, Inl InsufficientBalance}"
    by (auto simp: withdraw_result split: option.splits if_splits)
next
  assume r: "fst (TransactionService_deposit uuid now acc_id amt s) = Inr tx"
  then obtain account where a: "accounts (account_repo s) acc_id = Some account"
    and p: "\<not> amt \<le> 0" and tx: "tx = Transaction_init uuid now acc_id DEPOSIT amt"
    by (auto simp: deposit_result split: option.splits if_splits)
  show "transactions (transaction_repo (snd (TransactionService_deposit uuid now acc_id amt s))) =
        transactions (transaction_repo s) @ [tx]"
    by (simp add: deposit_success_state [OF a p] transactions_save_transaction tx)
  show "tx_account_id tx = acc_id" "transaction_type tx = DEPOSIT" "amount tx = amt"
    by (simp_all add: tx Transaction_init_def)
  show "\<forall>account. accounts (account_repo s) acc_id = Some account \<and> account_id account = acc_id \<longrightarrow>
         accounts (account_repo (snd (TransactionService_deposit uuid now acc_id amt s))) =
           (accounts (account_repo s))
             (acc_id \<mapsto> account\<lparr>balance := balance account + amt\<rparr>)"
    using a by (auto simp: deposit_success_state [OF a p])
next
  assume r: "fst (TransactionService_withdraw uuid now acc_id amt s) = Inr tx"
  then obtain account where a: "accounts (account_repo s) acc_id = Some account"
    and p: "\<not> amt \<le> 0" and b: "\<not> balance account < amt"
    and tx: "tx = Transaction_init uuid now acc_id WITHDRAW amt"
    by (auto simp: withdraw_result split: option.splits if_splits)
  show "transactions (transaction_repo (snd (TransactionService_withdraw uuid now acc_id amt s))) =
        transactions (transaction_repo s) @ [tx]"
    by (simp add: withdraw_success_state [OF a p b] transactions_save_transaction tx)
  show "tx_account_id tx = acc_id" "transaction_type tx = WITHDRAW" "amount tx = amt"
    by (simp_all add: tx Transaction_init_def)
  show "\<forall>account. accounts (account_repo s) acc_id = Some account \<and> account_id account = acc_id \<longrightarrow>
         accounts (account_repo (snd (TransactionService_withdraw uuid now acc_id amt s))) =
           (accounts (account_repo s))
             (acc_id \<mapsto> account\<lparr>balance := balance account - amt\<rparr>)"
    using a by (auto simp: withdraw_success_state [OF a p b])
qed

theorem transaction_service_effects_witness:
  "fst (TransactionService_deposit ''t1'' 2 ''a1'' (Fin 50)
      (snd (AccountCreationService_create_account ''a1'' 1 ''CHECKING'' (Fin 100) system_init))) =
     Inr (Transaction_init ''t1'' 2 ''a1'' DEPOSIT (Fin 50)) \<and>
   transactions (transaction_repo (snd (TransactionService_deposit ''t1'' 2 ''a1'' (Fin 50)
      (snd (AccountCreationService_create_account ''a1'' 1 ''CHECKING'' (Fin 100) system_init))))) =
     [Transaction_init ''t1'' 2 ''a1'' DEPOSIT (Fin 50)] \<and>
   accounts (account_repo (snd (TransactionService_deposit ''t1'' 2 ''a1'' (Fin 50)
      (snd (AccountCreationService_create_account ''a1'' 1 ''CHECKING'' (Fin 100) system_init)))))
     ''a1'' = Some (Account_init ''a1'' 1 CHECKING (Fin 150)) \<and>
   isl (fst (TransactionService_withdraw ''t2'' 3 ''a1'' (Fin 200)
      (snd (AccountCreationService_create_account ''a1'' 1 ''CHECKING'' (Fin 100) system_init)))) \<and>
   snd (TransactionService_withdraw ''t2'' 3 ''a1'' (Fin 200)
      (snd (AccountCreationService_create_account ''a1'' 1 ''CHECKING'' (Fin 100) system_init))) =
     snd (AccountCreationService_create_account ''a1'' 1 ''CHECKING'' (Fin 100) system_init) \<and>
   isl (fst (TransactionService_deposit ''t3'' 4 ''nobody'' (Fin 5)
      (snd (AccountCreationService_create_account ''a1'' 1 ''CHECKING'' (Fin 100) system_init)))) \<and>
   snd (TransactionService_deposit ''t3'' 4 ''nobody'' (Fin 5)
      (snd (AccountCreationService_create_account ''a1'' 1 ''CHECKING'' (Fin 100) system_init))) =
     snd (AccountCreationService_create_account ''a1'' 1 ''CHECKING'' (Fin 100) system_init) \<and>
   fst (TransactionService_withdraw ''t4'' 5 ''a1'' (Fin 100)
      (snd (AccountCreationService_create_account ''a1'' 1 ''CHECKING'' (Fin 100) system_init))) =
     Inr (Transaction_init ''t4'' 5 ''a1'' WITHDRAW (Fin 100)) \<and>
   accounts (account_repo (snd (TransactionService_withdraw ''t4'' 5 ''a1'' (Fin 100)
      (snd (AccountCreationService_create_account ''a1'' 1 ''CHECKING'' (Fin 100) system_init)))))
     ''a1'' = Some (Account_init ''a1'' 1 CHECKING (Fin 0))"
proof -
  let ?s = "snd (AccountCreationService_create_account ''a1'' 1 ''CHECKING'' (Fin 100) system_init)"
  have a: "accounts (account_repo ?s) ''a1'' = Some (Account_init ''a1'' 1 CHECKING (Fin 100))"
    and i: "account_id (Account_init ''a1'' 1 CHECKING (Fin 100)) = ''a1''"
    and n: "accounts (account_repo ?s) ''nobody'' = None"
    by (simp_all add: create_account_state AccountType_of_value_def Account_init_def
        system_init_def AccountRepository_init_def)
  have d: "fst (TransactionService_deposit ''t1'' 2 ''a1'' (Fin 50) ?s) =
      Inr (Transaction_init ''t1'' 2 ''a1'' DEPOSIT (Fin 50))"
    and w: "fst (TransactionService_withdraw ''t4'' 5 ''a1'' (Fin 100) ?s) =
      Inr (Transaction_init ''t4'' 5 ''a1'' WITHDRAW (Fin 100))"
    and f: "isl (fst (TransactionService_withdraw ''t2'' 3 ''a1'' (Fin 200) ?s))"
    and g: "isl (fst (TransactionService_deposit ''t3'' 4 ''nobody'' (Fin 5) ?s))"
    using a n by (simp_all add: deposit_result withdraw_result Account_init_def float_ops)
  have l: "transactions (transaction_repo ?s) = []"
    by (simp add: create_account_state AccountType_of_value_def system_init_def
        TransactionRepository_init_def)
  from transaction_service_effects
         [of "''t1''" 2 "''a1''" "Fin 50" ?s "Transaction_init ''t1'' 2 ''a1'' DEPOSIT (Fin 50)"]
       transaction_service_effects
         [of "''t4''" 5 "''a1''" "Fin 100" ?s "Transaction_init ''t4'' 5 ''a1'' WITHDRAW (Fin 100)"]
       transaction_service_effects [of "''t2''" 3 "''a1''" "Fin 200" ?s]
       transaction_service_effects [of "''t3''" 4 "''nobody''" "Fin 5" ?s]
       a i d w f g l
  show ?thesis
    by (simp add: Account_init_def float_ops round_double_eval)
qed

section \<open>Sequences of calls\<close>

lemma deposit_outcome:
  obtains (failed) "isl (fst (TransactionService_deposit uuid now acc_id amt s))"
      and "snd (TransactionService_deposit uuid now acc_id amt s) = s"
  | (ok) account where "accounts (account_repo s) acc_id = Some account" and "\<not> amt \<le> 0"
      and "fst (TransactionService_deposit uuid now acc_id amt s) =
         Inr (Transaction_init uuid now acc_id DEPOSIT amt)"
      and "accounts (account_repo (snd (TransactionService_deposit uuid now acc_id amt s))) =
         (accounts (account_repo s))
           (acc_id \<mapsto> account\<lparr>balance := balance account + amt\<rparr>,
            account_id account \<mapsto> account\<lparr>balance := balance account + amt\<rparr>)"
      and "transactions (transaction_repo (snd (TransactionService_deposit uuid now acc_id amt s))) =
         transactions (transaction_repo s) @ [Transaction_init uuid now acc_id DEPOSIT amt]"
proof (cases "isl (fst (TransactionService_deposit uuid now acc_id amt s))")
  case True
  then show ?thesis using failed deposit_failure_keeps_state by blast
next
  case False
  then obtain account where a: "accounts (account_repo s) acc_id = Some account" and p: "\<not> amt \<le> 0"
    by (auto simp: deposit_result split: option.splits if_splits)
  show ?thesis
  proof (rule ok [OF a p])
    show "fst (TransactionService_deposit uuid now acc_id amt s) =
         Inr (Transaction_init uuid now acc_id DEPOSIT amt)"
      using a p by (simp add: deposit_result)
  qed (simp_all add: deposit_success_state [OF a p] transactions_save_transaction)
qed

lemma withdraw_outcome:
  obtains (failed) "isl (fst (TransactionService_withdraw uuid now acc_id amt s))"
      and "snd (TransactionService_withdraw uuid now acc_id amt s) = s"
  | (ok) account where "accounts (account_repo s) acc_id = Some account" and "\<not> amt \<le> 0"
      and "\<not> balance account < amt"
      and "fst (TransactionService_withdraw uuid now acc_id amt s) =
         Inr (Transaction_init uuid now acc_id WITHDRAW amt)"
      and "accounts (account_repo (snd (TransactionService_withdraw uuid now acc_id amt s))) =
         (accounts (account_repo s))
           (acc_id \<mapsto> account\<lparr>balance := balance account - amt\<rparr>,
            account_id account \<mapsto> account\<lparr>balance := balance account - amt\<rparr>)"
      and "transactions (transaction_repo (snd (TransactionService_withdraw uuid now acc_id amt s))) =
         transactions (transaction_repo s) @ [Transaction_init uuid now acc_id WITHDRAW amt]"
proof (cases "isl (fst (TransactionService_withdraw uuid now acc_id amt s))")
  case True
  then show ?thesis using failed withdraw_failure_keeps_state by blast
next
  case False
  then obtain account where a: "accounts (account_repo s) acc_id = Some account" and p: "\<not> amt \<le> 0"
    and b: "\<not> balance account < amt"
    by (auto simp: withdraw_result split: option.splits if_splits)
  show ?thesis
  proof (rule ok [OF a p b])
    show "fst (TransactionService_withdraw uuid now acc_id amt s) =
         Inr (Transaction_init uuid now acc_id WITHDRAW amt)"
      using a p b by (simp add: withdraw_result)
  qed (simp_all add: withdraw_success_state [OF a p b] transactions_save_transaction)
qed

lemma step_stored_under_own_id:
  assumes "stored_under_own_id s"
  shows "stored_under_own_id (snd (step x s))"
proof (cases x)
  case (CreateAccount uuid now acc_type_str initial_deposit)
  then show ?thesis
    using assms
    by (auto simp: stored_under_own_id_def create_account_state Account_init_def
        split_beta split: sum.splits if_splits)
next
  case (Deposit uuid now acc_id amt)
  show ?thesis
  proof (cases rule: deposit_outcome [of uuid now acc_id amt s])
    case failed
    then show ?thesis using assms Deposit by (simp add: split_beta)
  next
    case (ok account)
    then show ?thesis using assms Deposit
      by (auto simp: stored_under_own_id_def split_beta split: if_splits)
  qed
next
  case (Withdraw uuid now acc_id amt)
  show ?thesis
  proof (cases rule: withdraw_outcome [of uuid now acc_id amt s])
    case failed
    then show ?thesis using assms Withdraw by (simp add: split_beta)
  next
    case (ok account)
    then show ?thesis using assms Withdraw
      by (auto simp: stored_under_own_id_def split_beta split: if_splits)
  qed
qed

lemma step_log_refers_to_accounts:
  assumes "log_refers_to_accounts s"
  shows "log_refers_to_accounts (snd (step x s))"
proof (cases x)
  case (CreateAccount uuid now acc_type_str initial_deposit)
  then show ?thesis
    using assms
    by (auto simp: log_refers_to_accounts_def create_account_state
        split_beta split: sum.splits if_splits)
next
  case (Deposit uuid now acc_id amt)
  show ?thesis
  proof (cases rule: deposit_outcome [of uuid now acc_id amt s])
    case failed
    then show ?thesis using assms Deposit by (simp add: split_beta)
  next
    case (ok account)
    then show ?thesis using assms Deposit
      by (auto simp: log_refers_to_accounts_def Transaction_init_def split_beta split: if_splits)
  qed
next
  case (Withdraw uuid now acc_id amt)
  show ?thesis
  proof (cases rule: withdraw_outcome [of uuid now acc_id amt s])
    case failed
    then show ?thesis using assms Withdraw by (simp add: split_beta)
  next
    case (ok account)
    then show ?thesis using assms Withdraw
      by (auto simp: log_refers_to_accounts_def Transaction_init_def split_beta split: if_splits)
  qed
qed

lemma step_balance_nonneg_at:
  assumes "harmless_for acc x" and "stored_under_own_id s" and "balance_nonneg_at acc s"
  shows "balance_nonneg_at acc (snd (step x s))"
proof (cases x)
  case (CreateAccount uuid now acc_type_str initial_deposit)
  then show ?thesis
    using assms
    by (auto simp: balance_nonneg_at_def create_account_state Account_init_def
        split_beta split: sum.splits if_splits)
next
  case (Deposit uuid now acc_id amt)
  show ?thesis
  proof (cases rule: deposit_outcome [of uuid now acc_id amt s])
    case failed
    then show ?thesis using assms Deposit by (simp add: split_beta)
  next
    case (ok account)
    have i: "account_id account = acc_id"
      using ok(1) assms(2) by (simp add: stored_under_own_id_def)
    show ?thesis
    proof (cases "acc_id = acc")
      case True
      then have "0 \<le> balance account" and "amt \<noteq> NaN"
        using ok(1) assms(1,3) Deposit by (simp_all add: balance_nonneg_at_def)
      then have "0 \<le> balance account + amt"
        using ok(2) by (simp add: float_add_nonneg)
      then show ?thesis
        using ok(4) i True Deposit by (simp add: balance_nonneg_at_def split_beta)
    next
      case False
      then show ?thesis
        using ok(4) i assms(3) Deposit by (simp add: balance_nonneg_at_def split_beta)
    qed
  qed
next
  case (Withdraw uuid now acc_id amt)
  show ?thesis
  proof (cases rule: withdraw_outcome [of uuid now acc_id amt s])
    case failed
    then show ?thesis using assms Withdraw by (simp add: split_beta)
  next
    case (ok account)
    have i: "account_id account = acc_id"
      using ok(1) assms(2) by (simp add: stored_under_own_id_def)
    show ?thesis
    proof (cases "acc_id = acc")
      case True
      then have "0 \<le> balance account" and "amt \<noteq> NaN" and "amt \<noteq> PInf"
        using ok(1) assms(1,3) Withdraw by (simp_all add: balance_nonneg_at_def)
      then have "0 \<le> balance account - amt"
        using ok(2,3) by (simp add: float_sub_nonneg)
      then show ?thesis
        using ok(5) i True Withdraw by (simp add: balance_nonneg_at_def split_beta)
    next
      case False
      then show ?thesis
        using ok(5) i assms(3) Withdraw by (simp add: balance_nonneg_at_def split_beta)
    qed
  qed
qed

lemma run_stored_under_own_id:
  "stored_under_own_id s \<Longrightarrow> stored_under_own_id (snd (run xs s))"
proof (induction xs arbitrary: s)
  case Nil
  then show ?case by simp
next
  case (Cons x xs)
  from Cons.IH [OF step_stored_under_own_id [OF Cons.prems, of x]]
  show ?case by (simp add: split_beta)
qed

lemma run_log_refers_to_accounts:
  "log_refers_to_accounts s \<Longrightarrow> log_refers_to_accounts (snd (run xs s))"
proof (induction xs arbitrary: s)
  case Nil
  then show ?case by simp
next
  case (Cons x xs)
  from Cons.IH [OF step_log_refers_to_accounts [OF Cons.prems, of x]]
  show ?case by (simp add: split_beta)
qed

lemma run_balance_nonneg_at:
  "list_all (harmless_for acc) xs \<Longrightarrow> stored_under_own_id s \<Longrightarrow> balance_nonneg_at acc s \<Longrightarrow>
   balance_nonneg_at acc (snd (run xs s))"
proof (induction xs arbitrary: s)
  case Nil
  then show ?case by simp
next
  case (Cons x xs)
  then have "balance_nonneg_at acc (snd (step x s))" and "stored_under_own_id (snd (step x s))"
    and "list_all (harmless_for acc) xs"
    by (simp_all add: step_balance_nonneg_at step_stored_under_own_id)
  from Cons.IH [OF this(3) this(2) this(1)]
  show ?case by (simp add: split_beta)
qed

lemma system_init_invariants:
  "stored_under_own_id system_init" "log_refers_to_accounts system_init"
  "balance_nonneg_at acc system_init"
  by (simp_all add: stored_under_own_id_def log_refers_to_accounts_def balance_nonneg_at_def
      system_init_def AccountRepository_init_def TransactionRepository_init_def)

lemma step_log_quiet:
  assumes "\<not> succeeded_on acc (x, fst (step x s))"
  shows "get_transactions_for_account (transaction_repo (snd (step x s))) acc =
         get_transactions_for_account (transaction_repo s) acc"
proof (cases x)
  case (CreateAccount uuid now acc_type_str initial_deposit)
  then show ?thesis
    by (simp add: create_account_state split_beta split: sum.splits)
next
  case (Deposit uuid now acc_id amt)
  show ?thesis
  proof (cases rule: deposit_outcome [of uuid now acc_id amt s])
    case failed
    then show ?thesis using Deposit by (simp add: split_beta)
  next
    case (ok account)
    then show ?thesis using assms Deposit
      by (auto simp: get_transactions_for_account_def Transaction_init_def split_beta)
  qed
next
  case (Withdraw uuid now acc_id amt)
  show ?thesis
  proof (cases rule: withdraw_outcome [of uuid now acc_id amt s])
    case failed
    then show ?thesis using Withdraw by (simp add: split_beta)
  next
    case (ok account)
    then show ?thesis using assms Withdraw
      by (auto simp: get_transactions_for_account_def Transaction_init_def split_beta)
  qed
qed

lemma run_log_quiet:
  "\<forall>p \<in> set (zip xs (fst (run xs s))). \<not> succeeded_on acc p \<Longrightarrow>
   get_transactions_for_account (transaction_repo (snd (run xs s))) acc =
   get_transactions_for_account (transaction_repo s) acc"
proof (induction xs arbitrary: s)
  case Nil
  then show ?case by simp
next
  case (Cons x xs)
  from Cons.prems have 1: "\<not> succeeded_on acc (x, fst (step x s))"
    and 2: "\<forall>p \<in> set (zip xs (fst (run xs (snd (step x s))))). \<not> succeeded_on acc p"
    by (auto simp: split_beta)
  from Cons.IH [OF 2] step_log_quiet [OF 1]
  show ?case by (simp add: split_beta)
qed

lemmas service_defs =
  AccountCreationService_create_account_def AccountType_of_value_def Account_init_def
  AccountRepository_create_account_def TransactionService_deposit_def
  TransactionService_withdraw_def get_account_by_id_def Account_deposit_def Account_withdraw_def
  mutated_in_place_def update_account_def save_transaction_def Transaction_init_def
  system_init_def AccountRepository_init_def TransactionRepository_init_def Let_def

text \<open>
  C1, as stated: after every operation of every sequence of \<^verbatim>\<open>create_account\<close> (with any
  initial deposit), \<^verbatim>\<open>deposit\<close> and \<^verbatim>\<open>withdraw\<close> calls, every balance is \<open>\<ge> 0\<close>. Opening an
  account with the initial deposit \<open>-5\<close> stores an account whose balance is \<open>-5\<close>.
\<close>

theorem balance_nonneg_counterexample:
  "accounts (account_repo (snd (run [CreateAccount ''a1'' 7 ''CHECKING'' (Fin (- 5))]
     system_init))) ''a1'' = Some (Account_init ''a1'' 7 CHECKING (Fin (- 5))) \<and>
   \<not> 0 \<le> balance (Account_init ''a1'' 7 CHECKING (Fin (- 5)))"
  by (simp add: service_defs float_ops)

text \<open>
  C1, amended: starting from empty repositories, after every operation of every sequence
  of \<^verbatim>\<open>create_account\<close>, \<^verbatim>\<open>deposit\<close> and \<^verbatim>\<open>withdraw\<close> calls, the balance of an account is
  \<open>\<ge> 0\<close>, provided that every call that opens this account gives it an initial deposit
  \<open>\<ge> 0\<close>, that no deposit to it or withdrawal from it has a NaN amount, and that no
  withdrawal from it has the amount \<open>+\<infinity>\<close>. Calls on other accounts are not restricted. The
  state after \<open>n\<close> operations is the one after the first \<open>n\<close> calls of the sequence.
\<close>

theorem balance_nonneg_after_every_operation:
  assumes "list_all (harmless_for acc) ops"
    and "accounts (account_repo (snd (run (take n ops) system_init))) acc = Some account"
  shows "0 \<le> balance account"
proof -
  have "list_all (harmless_for acc) (take n ops)"
    using assms(1) by (auto simp: list_all_iff dest: in_set_takeD)
  then have "balance_nonneg_at acc (snd (run (take n ops) system_init))"
    by (rule run_balance_nonneg_at) (rule system_init_invariants)+
  with assms(2) show ?thesis
    by (simp add: balance_nonneg_at_def)
qed

theorem balance_nonneg_after_every_operation_witness:
  "list_all (harmless_for ''a1'')
     [CreateAccount ''a2'' 0 ''SAVINGS'' (Fin (- 5)),
      CreateAccount ''a1'' 1 ''CHECKING'' (Fin 100), Deposit ''t1'' 2 ''a1'' (Fin 50),
      Withdraw ''t2'' 3 ''a1'' (Fin 200), Withdraw ''t3'' 4 ''a1'' (Fin 150),
      Deposit ''t4'' 5 ''a2'' NaN] \<and>
   accounts (account_repo (snd (run (take 5
     [CreateAccount ''a2'' 0 ''SAVINGS'' (Fin (- 5)),
      CreateAccount ''a1'' 1 ''CHECKING'' (Fin 100), Deposit ''t1'' 2 ''a1'' (Fin 50),
      Withdraw ''t2'' 3 ''a1'' (Fin 200), Withdraw ''t3'' 4 ''a1'' (Fin 150),
      Deposit ''t4'' 5 ''a2'' NaN]) system_init))) ''a1'' =
     Some (Account_init ''a1'' 1 CHECKING (Fin 0)) \<and>
   0 \<le> balance (Account_init ''a1'' 1 CHECKING (Fin 0))"
proof -
  have 1: "list_all (harmless_for ''a1'')
     [CreateAccount ''a2'' 0 ''SAVINGS'' (Fin (- 5)),
      CreateAccount ''a1'' 1 ''CHECKING'' (Fin 100), Deposit ''t1'' 2 ''a1'' (Fin 50),
      Withdraw ''t2'' 3 ''a1'' (Fin 200), Withdraw ''t3'' 4 ''a1'' (Fin 150),
      Deposit ''t4'' 5 ''a2'' NaN]"
    by (simp add: float_ops)
  have 2: "accounts (account_repo (snd (run (take 5
     [CreateAccount ''a2'' 0 ''SAVINGS'' (Fin (- 5)),
      CreateAccount ''a1'' 1 ''CHECKING'' (Fin 100), Deposit ''t1'' 2 ''a1'' (Fin 50),
      Withdraw ''t2'' 3 ''a1'' (Fin 200), Withdraw ''t3'' 4 ''a1'' (Fin 150),
      Deposit ''t4'' 5 ''a2'' NaN]) system_init))) ''a1'' =
     Some (Account_init ''a1'' 1 CHECKING (Fin 0))"
    by (simp add: service_defs float_ops round_double_eval)
  from balance_nonneg_after_every_operation [OF 1 2] 1 2 show ?thesis
    by blast
qed

text \<open>
  C10. \<^verbatim>\<open>AccountCreationService.create_account\<close> leaves the transaction log as it was,
  whatever the initial deposit. For an id that is fresh, that is not yet an id of the account
  repository the services have filled so far, \<^verbatim>\<open>get_transactions_for_account\<close> returns the
  empty list after the account is created and after any further calls, as long as none of
  them is a successful deposit to or withdrawal from that account.
\<close>

theorem create_account_appends_nothing:
  "transaction_repo
     (snd (AccountCreationService_create_account uuid now acc_type_str initial_deposit s)) =
     transaction_repo s \<and>
   (uuid \<notin> dom (accounts (account_repo (snd (run before system_init)))) \<and>
    (\<forall>p \<in> set (zip later (fst (run later
        (snd (AccountCreationService_create_account uuid now acc_type_str initial_deposit
           (snd (run before system_init))))))). \<not> succeeded_on uuid p) \<longrightarrow>
    get_transactions_for_account (transaction_repo (snd (run later
        (snd (AccountCreationService_create_account uuid now acc_type_str initial_deposit
           (snd (run before system_init))))))) uuid = [])"
proof (intro conjI impI)
  show "transaction_repo
     (snd (AccountCreationService_create_account uuid now acc_type_str initial_deposit s)) =
     transaction_repo s" for s
    by (simp add: create_account_state split: sum.splits)
  note log_kept = this
  let ?s = "snd (run before system_init)"
  let ?s' = "snd (AccountCreationService_create_account uuid now acc_type_str initial_deposit ?s)"
  assume h: "uuid \<notin> dom (accounts (account_repo ?s)) \<and>
    (\<forall>p \<in> set (zip later (fst (run later ?s'))). \<not> succeeded_on uuid p)"
  have "log_refers_to_accounts ?s"
    by (rule run_log_refers_to_accounts) (rule system_init_invariants)
  with h have "get_transactions_for_account (transaction_repo ?s) uuid = []"
    by (auto simp: log_refers_to_accounts_def get_transactions_for_account_def filter_empty_conv)
  then have "get_transactions_for_account (transaction_repo ?s') uuid = []"
    by (simp add: log_kept)
  moreover have "get_transactions_for_account (transaction_repo (snd (run later ?s'))) uuid =
      get_transactions_for_account (transaction_repo ?s') uuid"
    using h by (intro run_log_quiet) simp
  ultimately show "get_transactions_for_account (transaction_repo (snd (run later ?s'))) uuid = []"
    by simp
qed

theorem create_account_appends_nothing_witness:
  "''a1'' \<notin> dom (accounts (account_repo (snd (run
      [CreateAccount ''a0'' 1 ''SAVINGS'' (Fin 10), Deposit ''t0'' 2 ''a0'' (Fin 5)] system_init)))) \<and>
   fst (run
        [Deposit ''t1'' 4 ''a1'' (Fin 0), Deposit ''t2'' 5 ''a0'' (Fin 7), Withdraw ''t3'' 6 ''a1'' (Fin 500)]
        (snd (AccountCreationService_create_account ''a1'' 3 ''CHECKING'' (Fin 100) (snd (run
          [CreateAccount ''a0'' 1 ''SAVINGS'' (Fin 10), Deposit ''t0'' 2 ''a0'' (Fin 5)] system_init))))) =
     [Inl InvalidAmount, Inr (Recorded (Transaction_init ''t2'' 5 ''a0'' DEPOSIT (Fin 7))),
      Inl InsufficientBalance] \<and>
   get_transactions_for_account (transaction_repo (snd (run
        [Deposit ''t1'' 4 ''a1'' (Fin 0), Deposit ''t2'' 5 ''a0'' (Fin 7), Withdraw ''t3'' 6 ''a1'' (Fin 500)]
        (snd (AccountCreationService_create_account ''a1'' 3 ''CHECKING'' (Fin 100) (snd (run
          [CreateAccount ''a0'' 1 ''SAVINGS'' (Fin 10), Deposit ''t0'' 2 ''a0'' (Fin 5)] system_init)))))))
     ''a1'' = [] \<and>
   transactions (transaction_repo (snd (run
        [Deposit ''t1'' 4 ''a1'' (Fin 0), Deposit ''t2'' 5 ''a0'' (Fin 7), Withdraw ''t3'' 6 ''a1'' (Fin 500)]
        (snd (AccountCreationService_create_account ''a1'' 3 ''CHECKING'' (Fin 100) (snd (run
          [CreateAccount ''a0'' 1 ''SAVINGS'' (Fin 10), Deposit ''t0'' 2 ''a0'' (Fin 5)] system_init))))))) =
     [Transaction_init ''t0'' 2 ''a0'' DEPOSIT (Fin 5), Transaction_init ''t2'' 5 ''a0'' DEPOSIT (Fin 7)]"
proof -
  let ?before = "[CreateAccount ''a0'' 1 ''SAVINGS'' (Fin 10), Deposit ''t0'' 2 ''a0'' (Fin 5)]"
  let ?later =
    "[Deposit ''t1'' 4 ''a1'' (Fin 0), Deposit ''t2'' 5 ''a0'' (Fin 7), Withdraw ''t3'' 6 ''a1'' (Fin 500)]"
  let ?s' = "snd (AccountCreationService_create_account ''a1'' 3 ''CHECKING'' (Fin 100)
               (snd (run ?before system_init)))"
  have 1: "''a1'' \<notin> dom (accounts (account_repo (snd (run ?before system_init))))"
    by (simp add: service_defs dom_def float_ops round_double_eval)
  have 2: "\<forall>p \<in> set (zip ?later (fst (run ?later ?s'))). \<not> succeeded_on ''a1'' p"
    by (simp add: service_defs float_ops round_double_eval)
  have 3: "transactions (transaction_repo (snd (run ?later ?s'))) =
     [Transaction_init ''t0'' 2 ''a0'' DEPOSIT (Fin 5), Transaction_init ''t2'' 5 ''a0'' DEPOSIT (Fin 7)]"
    by (simp add: service_defs float_ops round_double_eval)
  have 4: "fst (run ?later ?s') =
     [Inl InvalidAmount, Inr (Recorded (Transaction_init ''t2'' 5 ''a0'' DEPOSIT (Fin 7))),
      Inl InsufficientBalance]"
    by (simp add: service_defs float_ops round_double_eval)
  from create_account_appends_nothing
         [of "''a1''" 3 "''CHECKING''" "Fin 100" _ ?before ?later] 1 2 3 4
  show ?thesis by blast
qed

end
